theory Spec2Isabelle
  imports Complex_Main
begin

section \<open>JavaScript values\<close>

text \<open>
  A product is a flat object: each of its fields holds a primitive value. A number of the
  language is a double: a finite value (a rational; \<open>Fin 0\<close> is the positive zero), the
  negative zero, one of the two infinities, or NaN.
\<close>

datatype number = Fin rat | NegZero | PosInf | NegInf | NaN

datatype prim = Undefined | Null | Bool bool | Num number | Str string

text \<open>
  An object is modelled by what reading each of its properties gives: \<^verbatim>\<open>obj.k\<close> is
  \<^verbatim>\<open>undefined\<close> for a property the object does not have as for one that holds
  \<^verbatim>\<open>undefined\<close>, and the code never tells the two apart (it reads properties, spreads
  objects and hands them to \<open>JSON.stringify\<close>). An object has one value for each
  property name; the order in which its properties are listed is not modelled.
\<close>

type_synonym object = "string \<Rightarrow> prim"

text \<open>What an operation hands back: a primitive, one object, or an array of objects.\<close>

datatype jsval = Prim prim | Object object | Array "object list"

datatype js_error = TypeError | ReferenceError

text \<open>\<^verbatim>\<open>obj.k\<close>.\<close>

definition get_prop :: "object \<Rightarrow> string \<Rightarrow> prim" where
  "get_prop obj k = obj k"

text \<open>Defining the property \<open>k\<close> of an object: the value it had for \<open>k\<close>, if any, is replaced.\<close>

definition set_prop :: "object \<Rightarrow> string \<Rightarrow> prim \<Rightarrow> object" where
  "set_prop obj k v = obj(k := v)"

text \<open>
  The object that an object literal builds, and that \<open>JSON.parse\<close> builds from the members
  of an object in a text: the properties are defined one after the other, so that of two
  members with the same name the later one stays.
\<close>

definition object_of :: "(string \<times> prim) list \<Rightarrow> object" where
  "object_of members = foldl (\<lambda>obj (k, v). set_prop obj k v) (\<lambda>k. Undefined) members"

text \<open>\<^verbatim>\<open>!v\<close> is true exactly when \<open>v\<close> is not truthy.\<close>

fun truthy :: "prim \<Rightarrow> bool" where
  "truthy Undefined = False"
| "truthy Null = False"
| "truthy (Bool b) = b"
| "truthy (Num n) = (n \<noteq> Fin 0 \<and> n \<noteq> NegZero \<and> n \<noteq> NaN)"
| "truthy (Str s) = (s \<noteq> [])"

text \<open>Equality of two numbers: NaN equals nothing, and the two zeros equal each other.\<close>

fun num_eq :: "number \<Rightarrow> number \<Rightarrow> bool" where
  "num_eq NaN _ = False"
| "num_eq _ NaN = False"
| "num_eq NegZero (Fin q) = (q = 0)"
| "num_eq (Fin q) NegZero = (q = 0)"
| "num_eq a b = (a = b)"

text \<open>\<^verbatim>\<open>a === b\<close> on primitives: same type and equal values.\<close>

fun strict_eq :: "prim \<Rightarrow> prim \<Rightarrow> bool" where
  "strict_eq (Num a) (Num b) = num_eq a b"
| "strict_eq a b = (a = b)"

text \<open>
  Two built-ins of the language that the repository does not define are parameters of the
  model. \<open>tn\<close> is the number a string converts to (StringToNumber). \<open>rd\<close> is the
  rounding of an exact value to the nearest double, used where the model does not
  compute the rounding itself. Every general statement below holds for every \<open>tn\<close> and
  \<open>rd\<close>; a closed example gives \<open>tn\<close> a function that is right on the strings the
  example converts (most convert none), and holds no value that has to be rounded, so
  that its \<open>rd\<close> is never consulted.
\<close>

fun to_number :: "(string \<Rightarrow> number) \<Rightarrow> prim \<Rightarrow> number" where
  "to_number tn Undefined = NaN"
| "to_number tn Null = Fin 0"
| "to_number tn (Bool b) = Fin (if b then 1 else 0)"
| "to_number tn (Num n) = n"
| "to_number tn (Str s) = tn s"

text \<open>
  \<^verbatim>\<open>a == b\<close> and \<^verbatim>\<open>a != b\<close> on primitives: \<^verbatim>\<open>null\<close> and \<^verbatim>\<open>undefined\<close> equal each other
  and nothing else, two strings are compared as strings, and every other pair is
  compared after conversion to numbers.
\<close>

fun nullish :: "prim \<Rightarrow> bool" where
  "nullish Undefined = True"
| "nullish Null = True"
| "nullish _ = False"

fun loose_eq :: "(string \<Rightarrow> number) \<Rightarrow> prim \<Rightarrow> prim \<Rightarrow> bool" where
  "loose_eq tn (Str s) (Str t) = (s = t)"
| "loose_eq tn a b =
     (if nullish a \<or> nullish b then nullish a \<and> nullish b
      else num_eq (to_number tn a) (to_number tn b))"

section \<open>The JSON file\<close>

text \<open>
  The code sees the file only through \<open>JSON.parse\<close>, so the file is modelled by the list
  that \<open>JSON.parse\<close> reads from its text: one object for each element, each with one value
  for each property name and with every number a double. How the members of an object in
  the text are read is spelt out first. A number in the text is given by its exact value;
  a zero written with a minus sign is the negative zero.
\<close>

datatype json_literal = LNull | LBool bool | LNum rat | LMinusZero | LStr string

text \<open>
  The double read for a number of exact value \<open>q\<close>: \<open>q\<close> itself when it is an integer of
  magnitude up to \<open>2^53\<close>, an infinity from \<open>2^1024\<close> on, and otherwise the nearest double.
\<close>

definition read_number :: "(rat \<Rightarrow> number) \<Rightarrow> rat \<Rightarrow> number" where
  "read_number rd q =
     (if q \<in> \<int> \<and> \<bar>q\<bar> \<le> 2 ^ 53 then Fin q
      else if 2 ^ 1024 \<le> q then PosInf
      else if q \<le> - (2 ^ 1024) then NegInf
      else rd q)"

fun read_literal :: "(rat \<Rightarrow> number) \<Rightarrow> json_literal \<Rightarrow> prim" where
  "read_literal rd LNull = Null"
| "read_literal rd (LBool b) = Bool b"
| "read_literal rd (LNum q) = Num (read_number rd q)"
| "read_literal rd LMinusZero = Num NegZero"
| "read_literal rd (LStr s) = Str s"

text \<open>\<open>JSON.parse\<close> on the members of one object: a name that is repeated keeps its last value.\<close>

definition JSON_parse_object :: "(rat \<Rightarrow> number) \<Rightarrow> (string \<times> json_literal) list \<Rightarrow> object" where
  "JSON_parse_object rd members = object_of (map (\<lambda>(k, l). (k, read_literal rd l)) members)"

text \<open>
  What a later \<open>JSON.parse\<close> reads for a property value that \<open>JSON.stringify\<close> has written:
  a property that holds \<^verbatim>\<open>undefined\<close> is left out of the text and reads \<^verbatim>\<open>undefined\<close>
  again; NaN and the infinities are written as \<^verbatim>\<open>null\<close>; the negative zero is written
  as \<^verbatim>\<open>0\<close>; every other value is read as it was.
\<close>

fun json_number :: "number \<Rightarrow> prim" where
  "json_number (Fin q) = Num (Fin q)"
| "json_number NegZero = Num (Fin 0)"
| "json_number PosInf = Null"
| "json_number NegInf = Null"
| "json_number NaN = Null"

fun json_value :: "prim \<Rightarrow> prim" where
  "json_value Undefined = Undefined"
| "json_value Null = Null"
| "json_value (Bool b) = Bool b"
| "json_value (Num n) = json_number n"
| "json_value (Str s) = Str s"

definition through_json :: "object \<Rightarrow> object" where
  "through_json obj = (\<lambda>k. json_value (get_prop obj k))"

text \<open>A value that JSON carries: not NaN and not an infinity.\<close>

fun json_safe :: "prim \<Rightarrow> bool" where
  "json_safe (Num NaN) = False"
| "json_safe (Num PosInf) = False"
| "json_safe (Num NegInf) = False"
| "json_safe _ = True"

text \<open>A value that is read back exactly as it was written: one that JSON carries, but for the negative zero.\<close>

definition json_keeps :: "prim \<Rightarrow> bool" where
  "json_keeps v = (json_value v = v)"

text \<open>
  The file at \<^verbatim>\<open>this.path\<close>: it cannot be read, or it holds text that is not JSON, or it
  holds a JSON array of flat objects, which \<open>JSON.parse\<close> reads as the list given. (A file
  with any other JSON document is outside the model.)
\<close>

datatype json_file = Unreadable | Malformed | Stored "object list"

text \<open>
  \<^verbatim>\<open>fs.promises.writeFile(this.path, JSON.stringify(list))\<close>: the file then holds the text
  of the list, which is read as the list gone through JSON. A write is taken to succeed.
\<close>

definition writeFile :: "object list \<Rightarrow> json_file" where
  "writeFile list = Stored (map through_json list)"

section \<open>ProductManager\<close>

text \<open>
  \<^verbatim>\<open>getProducts\<close>: a failed read and a failed parse are both caught, and the method then
  returns \<^verbatim>\<open>undefined\<close>.
\<close>

fun getProducts :: "json_file \<Rightarrow> jsval" where
  "getProducts Unreadable = Prim Undefined"
| "getProducts Malformed = Prim Undefined"
| "getProducts (Stored list) = Array list"

text \<open>
  \<^verbatim>\<open>getProductById\<close>: the search is \<^verbatim>\<open>prod.id === productID\<close>. When the list is
  \<^verbatim>\<open>undefined\<close>, \<^verbatim>\<open>productList.find\<close> throws a TypeError inside the \<^verbatim>\<open>try\<close>; the
  handler is written \<^verbatim>\<open>catch {\<close> with no binding and then reads \<^verbatim>\<open>err\<close>, so the handler
  itself throws a ReferenceError, which reaches the caller.
\<close>

definition getProductById :: "json_file \<Rightarrow> prim \<Rightarrow> js_error + jsval" where
  "getProductById f productID =
     (case getProducts f of
        Array productList \<Rightarrow>
          (case find (\<lambda>prod. strict_eq (get_prop prod ''id'') productID) productList of
             Some productSearch \<Rightarrow> Inr (Object productSearch)
           | None \<Rightarrow> Inr (Prim Undefined))
      | _ \<Rightarrow> Inl ReferenceError)"

text \<open>
  \<^verbatim>\<open>n + 1\<close> on a number that holds the integer \<open>n\<close>: exact from \<open>-2^53\<close> up to
  \<open>2^53 - 1\<close>; beyond, the sum is rounded to the nearest representable number, ties to
  the even mantissa (\<^verbatim>\<open>9007199254740992 + 1\<close> is \<^verbatim>\<open>9007199254740992\<close>).
\<close>

definition js_plus_one :: "int \<Rightarrow> int" where
  "js_plus_one n =
     (if - (2 ^ 53) \<le> n \<and> n < 2 ^ 53 then n + 1
      else if \<bar>n\<bar> < 2 ^ 54 \<and> odd (n div 2) then n + 2
      else n)"

text \<open>
  \<^verbatim>\<open>x + 1\<close> on any number: an integer as above, another finite value by the rounding of
  the exact sum.
\<close>

fun plus_one :: "(rat \<Rightarrow> number) \<Rightarrow> number \<Rightarrow> number" where
  "plus_one rd (Fin q) = (if q \<in> \<int> then Fin (of_int (js_plus_one \<lfloor>q\<rfloor>)) else rd (q + 1))"
| "plus_one rd NegZero = Fin 1"
| "plus_one rd PosInf = PosInf"
| "plus_one rd NegInf = NegInf"
| "plus_one rd NaN = NaN"

text \<open>\<^verbatim>\<open>v + 1\<close>: a string is concatenated with \<^verbatim>\<open>"1"\<close>, anything else is added as a number.\<close>

fun add_one :: "(rat \<Rightarrow> number) \<Rightarrow> prim \<Rightarrow> prim" where
  "add_one rd Undefined = Num NaN"
| "add_one rd Null = Num (Fin 1)"
| "add_one rd (Bool b) = Num (Fin (if b then 2 else 1))"
| "add_one rd (Num n) = Num (plus_one rd n)"
| "add_one rd (Str s) = Str (s @ ''1'')"

text \<open>
  The private \<^verbatim>\<open>#getNewID\<close> reads the file again: 1 for an empty list, otherwise the id
  of the last product plus one. On an \<^verbatim>\<open>undefined\<close> list the TypeError is caught and the
  result is \<^verbatim>\<open>undefined\<close>.
\<close>

definition getNewID :: "(rat \<Rightarrow> number) \<Rightarrow> json_file \<Rightarrow> prim" where
  "getNewID rd f =
     (case getProducts f of
        Array productList \<Rightarrow>
          (if length productList = 0 then Num (Fin 1)
           else (let lastProductAdd = last productList
                 in add_one rd (get_prop lastProductAdd ''id'')))
      | _ \<Rightarrow> Undefined)"

text \<open>
  \<^verbatim>\<open>productList[id - 1]\<close>: the element at that index, \<^verbatim>\<open>undefined\<close> when \<^verbatim>\<open>id - 1\<close> is not
  an index of the array. (Where \<^verbatim>\<open>id - 1\<close> would be rounded, it is far outside any array.)
\<close>

definition element_before :: "(string \<Rightarrow> number) \<Rightarrow> object list \<Rightarrow> prim \<Rightarrow> jsval" where
  "element_before tn productList ident =
     (case to_number tn ident of
        Fin q \<Rightarrow>
          (if q \<in> \<int> \<and> 1 \<le> q \<and> nat (\<lfloor>q\<rfloor> - 1) < length productList
           then Object (productList ! nat (\<lfloor>q\<rfloor> - 1))
           else Prim Undefined)
      | _ \<Rightarrow> Prim Undefined)"

definition required_fields :: "string list" where
  "required_fields = [''title'', ''description'', ''price'', ''thumbnail'', ''code'', ''stock'']"

text \<open>The object literal that \<^verbatim>\<open>addProduct\<close> pushes: the id, then the six fields.\<close>

definition new_product :: "prim \<Rightarrow> object \<Rightarrow> object" where
  "new_product ident newProduct =
     object_of ((''id'', ident) # map (\<lambda>k. (k, get_prop newProduct k)) required_fields)"

text \<open>
  \<^verbatim>\<open>addProduct\<close>: every early \<^verbatim>\<open>return console.error(...)\<close> returns \<^verbatim>\<open>undefined\<close>, and so
  does the \<^verbatim>\<open>catch\<close> (reached when \<^verbatim>\<open>productList.some\<close> is called on \<^verbatim>\<open>undefined\<close>).
  The payload is an object, as the method's documentation says.
\<close>

definition addProduct ::
  "(string \<Rightarrow> number) \<Rightarrow> (rat \<Rightarrow> number) \<Rightarrow> json_file \<Rightarrow> object \<Rightarrow> jsval \<times> json_file" where
  "addProduct tn rd f newProduct =
     (if list_ex (\<lambda>k. \<not> truthy (get_prop newProduct k)) required_fields
      then (Prim Undefined, f)
      else
        (case getProducts f of
           Array productList \<Rightarrow>
             (if list_ex (\<lambda>product. strict_eq (get_prop product ''code'')
                                              (get_prop newProduct ''code'')) productList
              then (Prim Undefined, f)
              else
                (let ident = getNewID rd f;
                     pushed = productList @ [new_product ident newProduct]
                 in (element_before tn pushed ident, writeFile pushed)))
         | _ \<Rightarrow> (Prim Undefined, f)))"

text \<open>
  \<^verbatim>\<open>deleteProduct\<close> has no \<^verbatim>\<open>try\<close>: \<^verbatim>\<open>productList.filter\<close> on \<^verbatim>\<open>undefined\<close> throws a
  TypeError that reaches the caller. The filter keeps the products with
  \<^verbatim>\<open>product.id != productID\<close>.
\<close>

definition deleteProduct ::
  "(string \<Rightarrow> number) \<Rightarrow> json_file \<Rightarrow> prim \<Rightarrow> (js_error + jsval) \<times> json_file" where
  "deleteProduct tn f productID =
     (case getProducts f of
        Array productList \<Rightarrow>
          (let newProductList =
                 filter (\<lambda>product. \<not> loose_eq tn (get_prop product ''id'') productID) productList
           in (Inr (Array newProductList), writeFile newProductList))
      | _ \<Rightarrow> (Inl TypeError, f))"

text \<open>
  \<^verbatim>\<open>updateProduct\<close>: the matched product (\<^verbatim>\<open>product.id === productID\<close>) is replaced by
  \<^verbatim>\<open>{...product, title, description, price, thumbnail, code, stock}\<close>, the six values
  being those destructured from the payload (\<^verbatim>\<open>undefined\<close> for a field the payload lacks).
\<close>

definition merge_fields :: "object \<Rightarrow> object \<Rightarrow> object" where
  "merge_fields product productToChanged =
     foldl (\<lambda>obj k. set_prop obj k (get_prop productToChanged k)) product required_fields"

definition updateProduct :: "json_file \<Rightarrow> prim \<Rightarrow> object \<Rightarrow> jsval \<times> json_file" where
  "updateProduct f productID productToChanged =
     (case getProducts f of
        Array productList \<Rightarrow>
          (let updatedProductList =
                 map (\<lambda>product.
                        if strict_eq (get_prop product ''id'') productID
                        then merge_fields product productToChanged
                        else product) productList
           in (Array updatedProductList, writeFile updatedProductList))
      | _ \<Rightarrow> (Prim Undefined, f))"

section \<open>CartManagerMongo\<close>

text \<open>
  The carts are documents of a database. A line item of a stored cart refers to a product
  by its identifier (or holds \<^verbatim>\<open>null\<close>) and carries a quantity. The database is taken
  to answer every query; a query that finds nothing answers \<^verbatim>\<open>null\<close>.
\<close>

type_synonym oid = string

record product_doc =
  doc_id :: oid
  doc_fields :: "(string \<times> prim) list"

text \<open>
  What \<^verbatim>\<open>item.product\<close> holds in memory: the whole product document after
  \<^verbatim>\<open>populate\<close>, \<^verbatim>\<open>null\<close> when the referenced product does not exist, or a bare
  identifier in a line item that the code has just built from \<^verbatim>\<open>product._id\<close>.
\<close>

datatype ref_value = Populated product_doc | NullRef | IdRef oid

record ('r, 'q) item =
  product_ref :: 'r
  quantity :: 'q

record 'i cart =
  cart_id :: oid
  products :: "'i list"

type_synonym stored_item = "(oid option, int) item"
type_synonym read_item = "(ref_value, int) item"
type_synonym written_item = "(ref_value, int option) item"

record database =
  carts :: "stored_item cart list"
  catalog :: "product_doc list"

datatype 'a returned = Returned 'a | ReturnedUndefined | ReturnedNull

text \<open>
  \<^verbatim>\<open>populate('products.product')\<close> with \<^verbatim>\<open>lean()\<close>: every reference is replaced by the
  plain object of the product it names, or by \<^verbatim>\<open>null\<close> when there is no such product.
\<close>

definition populate :: "product_doc list \<Rightarrow> stored_item \<Rightarrow> read_item" where
  "populate docs it =
     \<lparr>product_ref =
        (case product_ref it of
           None \<Rightarrow> NullRef
         | Some i \<Rightarrow> (case find (\<lambda>d. doc_id d = i) docs of
                        Some d \<Rightarrow> Populated d
                      | None \<Rightarrow> NullRef)),
      quantity = quantity it\<rparr>"

text \<open>\<^verbatim>\<open>getCartById\<close>: the cart with its line items populated; \<open>None\<close> is \<^verbatim>\<open>null\<close>.\<close>

definition getCartById :: "database \<Rightarrow> oid \<Rightarrow> read_item cart option" where
  "getCartById db cartID =
     (case find (\<lambda>c. cart_id c = cartID) (carts db) of
        None \<Rightarrow> None
      | Some c \<Rightarrow> Some \<lparr>cart_id = cart_id c, products = map (populate (catalog db)) (products c)\<rparr>)"

text \<open>
  Modelled from the spec: \<^verbatim>\<open>ProductManagerMongo.getProductById\<close>, whose file
  (\<^verbatim>\<open>dao/ProductManager.mongo.js\<close>) is not among the sources. The spec's \<^verbatim>\<open>getById(id)\<close>
  is a lookup by identifier that hands back the record, and a sentinel (\<open>None\<close> here)
  when no record has the identifier.
\<close>

definition getProductById_mongo :: "database \<Rightarrow> oid \<Rightarrow> product_doc option" where
  "getProductById_mongo db productId = find (\<lambda>d. doc_id d = productId) (catalog db)"

text \<open>
  Modelled from the spec: the cart schema (\<^verbatim>\<open>models/cart.model.js\<close> is not among the
  sources). The spec has a line item hold a product identifier and a quantity, and has a
  new line item inserted at quantity 1: a line item written without a quantity is stored
  with this default.
\<close>

definition default_quantity :: int where
  "default_quantity = 1"

text \<open>
  What the database stores for a line item of \<^verbatim>\<open>$set: { products: cart.products }\<close>: the
  identifier of a populated product, the identifier itself, or \<^verbatim>\<open>null\<close>; the quantity,
  or the default when the line item has none.
\<close>

definition cast_item :: "written_item \<Rightarrow> stored_item" where
  "cast_item it =
     \<lparr>product_ref =
        (case product_ref it of
           Populated d \<Rightarrow> Some (doc_id d)
         | NullRef \<Rightarrow> None
         | IdRef i \<Rightarrow> Some i),
      quantity = (case quantity it of Some n \<Rightarrow> n | None \<Rightarrow> default_quantity)\<rparr>"

fun set_products :: "oid \<Rightarrow> stored_item list \<Rightarrow> stored_item cart list \<Rightarrow> stored_item cart list" where
  "set_products cartId its [] = []"
| "set_products cartId its (c # cs) =
     (if cart_id c = cartId then c\<lparr>products := its\<rparr> # cs
      else c # set_products cartId its cs)"

text \<open>
  \<^verbatim>\<open>findOneAndUpdate({_id: cartId}, {$set: {products: ...}}, {new: true})\<close>: the first cart
  with the identifier takes the new line items, and the updated cart is the result
  (\<^verbatim>\<open>null\<close> when no cart has the identifier).
\<close>

definition findOneAndUpdate ::
  "database \<Rightarrow> oid \<Rightarrow> written_item list \<Rightarrow> stored_item cart returned \<times> database" where
  "findOneAndUpdate db cartId its =
     (let db' = db\<lparr>carts := set_products cartId (map cast_item its) (carts db)\<rparr>
      in (case find (\<lambda>c. cart_id c = cartId) (carts db') of
            Some updatedCart \<Rightarrow> (Returned updatedCart, db')
          | None \<Rightarrow> (ReturnedNull, db')))"

text \<open>
  \<^verbatim>\<open>String(item.product)\<close>: a plain object converts to \<^verbatim>\<open>"[object Object]"\<close>, \<^verbatim>\<open>null\<close> to
  \<^verbatim>\<open>"null"\<close>, an identifier to its own text. \<^verbatim>\<open>String(productId)\<close> is \<open>productId\<close>
  itself, the argument being a string.
\<close>

fun js_String :: "ref_value \<Rightarrow> string" where
  "js_String (Populated d) = ''[object Object]''"
| "js_String NullRef = ''null''"
| "js_String (IdRef i) = i"

text \<open>A line item as read, kept as it is in the list that is written back.\<close>

definition keep :: "read_item \<Rightarrow> written_item" where
  "keep it = \<lparr>product_ref = product_ref it, quantity = Some (quantity it)\<rparr>"

text \<open>
  \<^verbatim>\<open>find\<close> hands back the first line item that satisfies the test, and the code then
  changes that object in place: the list is the same but for its first such element.
\<close>

fun change_first :: "('a \<Rightarrow> bool) \<Rightarrow> ('a \<Rightarrow> 'a) \<Rightarrow> 'a list \<Rightarrow> 'a list" where
  "change_first P g [] = []"
| "change_first P g (x # xs) = (if P x then g x # xs else x # change_first P g xs)"

text \<open>
  \<^verbatim>\<open>addProductToCart\<close>. The product is looked up first; without it the method returns
  \<^verbatim>\<open>undefined\<close>. On a \<^verbatim>\<open>null\<close> cart \<^verbatim>\<open>cart.products\<close> throws, and the \<^verbatim>\<open>catch\<close> returns
  \<^verbatim>\<open>undefined\<close>. The test for a line item already in the cart is
  \<^verbatim>\<open>String(item.product) === String(productId)\<close>; a hit gets \<^verbatim>\<open>quantity++\<close>, a miss
  pushes \<^verbatim>\<open>{ product: product._id }\<close>.
\<close>

definition addProductToCart ::
  "database \<Rightarrow> oid \<Rightarrow> oid \<Rightarrow> stored_item cart returned \<times> database" where
  "addProductToCart db cartId productId =
     (let cart = getCartById db cartId;
          product = getProductById_mongo db productId
      in case product of
           None \<Rightarrow> (ReturnedUndefined, db)
         | Some p \<Rightarrow>
             (case cart of
                None \<Rightarrow> (ReturnedUndefined, db)
              | Some c \<Rightarrow>
                  (let in_cart = (\<lambda>item. js_String (product_ref item) = productId)
                   in case find in_cart (products c) of
                        Some productExist \<Rightarrow>
                          findOneAndUpdate db cartId
                            (map keep (change_first in_cart
                               (\<lambda>item. item\<lparr>quantity := js_plus_one (quantity item)\<rparr>)
                               (products c)))
                      | None \<Rightarrow>
                          findOneAndUpdate db cartId
                            (map keep (products c)
                             @ [\<lparr>product_ref = IdRef (doc_id p), quantity = None\<rparr>]))))"

text \<open>
  The quantity of the request (\<^verbatim>\<open>newQuantity.quantity\<close>) as \<^verbatim>\<open>isNaN\<close> sorts it:
  \<open>NotANumber\<close> is a value for which \<^verbatim>\<open>isNaN\<close> holds (\<^verbatim>\<open>undefined\<close>, NaN, a string that
  is not numeric), \<open>Quantity n\<close> a value that is, or converts to, the integer \<open>n\<close>.
\<close>

datatype quantity_arg = Quantity int | NotANumber

text \<open>
  \<^verbatim>\<open>updateQuantityOfProduct\<close>: same lookups and the same test as \<^verbatim>\<open>addProductToCart\<close>.
  A line item that is not found returns \<^verbatim>\<open>null\<close>; a found one with a quantity that is
  not a number returns \<^verbatim>\<open>undefined\<close>; otherwise the quantity is assigned and the line
  items are written back.
\<close>

definition updateQuantityOfProduct ::
  "database \<Rightarrow> oid \<Rightarrow> oid \<Rightarrow> quantity_arg \<Rightarrow> stored_item cart returned \<times> database" where
  "updateQuantityOfProduct db cartId productId newQuantity =
     (let cart = getCartById db cartId;
          product = getProductById_mongo db productId
      in case product of
           None \<Rightarrow> (ReturnedUndefined, db)
         | Some p \<Rightarrow>
             (case cart of
                None \<Rightarrow> (ReturnedUndefined, db)
              | Some c \<Rightarrow>
                  (let in_cart = (\<lambda>item. js_String (product_ref item) = productId)
                   in case find in_cart (products c) of
                        Some productExistInCart \<Rightarrow>
                          (case newQuantity of
                             Quantity parsedQuantity \<Rightarrow>
                               findOneAndUpdate db cartId
                                 (map keep (change_first in_cart
                                    (\<lambda>item. item\<lparr>quantity := parsedQuantity\<rparr>)
                                    (products c)))
                           | NotANumber \<Rightarrow> (ReturnedUndefined, db))
                      | None \<Rightarrow> (ReturnedNull, db))))"

section \<open>Going through JSON\<close>

lemma through_json_apply: "get_prop (through_json obj) k = json_value (get_prop obj k)"
  by (simp add: through_json_def get_prop_def)

lemma through_json_keeps:
  "\<forall>k. json_keeps (get_prop obj k) \<Longrightarrow> through_json obj = obj"
  by (auto simp: through_json_def json_keeps_def get_prop_def)

lemma map_through_json_keeps:
  "\<forall>p \<in> set list. \<forall>k. json_keeps (get_prop p k) \<Longrightarrow> map through_json list = list"
  by (induction list) (simp_all add: through_json_keeps)

lemma json_keeps_iff: "json_keeps v = (json_safe v \<and> v \<noteq> Num NegZero)"
proof (cases v)
  case (Num n)
  then show ?thesis by (cases n) (simp_all add: json_keeps_def)
qed (simp_all add: json_keeps_def)

lemma json_safe_strict_eq: "json_safe v \<Longrightarrow> strict_eq (json_value v) v"
proof (cases v)
  case (Num n)
  assume "json_safe v"
  with Num show ?thesis by (cases n) simp_all
qed simp_all

lemma through_json_safe:
  "\<forall>p \<in> set list. \<forall>k. json_safe (get_prop p k) \<Longrightarrow>
   list_all2 (\<lambda>p' p. \<forall>k. strict_eq (get_prop p' k) (get_prop p k)) (map through_json list) list"
  by (induction list) (simp_all add: through_json_apply json_safe_strict_eq)

section \<open>Deleting an identifier that no product has\<close>

text \<open>
  C7, as the code has it. When no stored product's id equals the argument by the \<^verbatim>\<open>!=\<close>
  that deleteProduct applies, deleteProduct returns the stored list and writes every
  record of it back as JSON writes it. When no stored value is an infinity, getProducts
  reads afterwards the same records in the same order, every field \<^verbatim>\<open>===\<close> to what it
  was; when moreover no stored value is the negative zero, it reads the very same list.
\<close>

theorem deleteProduct_absent_id_unchanged:
  assumes "\<forall>p \<in> set ps. \<not> loose_eq tn (get_prop p ''id'') productID"
  shows "deleteProduct tn (Stored ps) productID = (Inr (Array ps), Stored (map through_json ps))
       \<and> ((\<forall>p \<in> set ps. \<forall>k. json_safe (get_prop p k)) \<longrightarrow>
            list_all2 (\<lambda>p' p. \<forall>k. strict_eq (get_prop p' k) (get_prop p k))
                      (map through_json ps) ps)
       \<and> ((\<forall>p \<in> set ps. \<forall>k. json_keeps (get_prop p k)) \<longrightarrow>
            deleteProduct tn (Stored ps) productID = (Inr (Array ps), Stored ps))"
proof -
  have "filter (\<lambda>product. \<not> loose_eq tn (get_prop product ''id'') productID) ps = ps"
    using assms by (induction ps) simp_all
  then have "deleteProduct tn (Stored ps) productID = (Inr (Array ps), Stored (map through_json ps))"
    by (simp add: deleteProduct_def writeFile_def)
  then show ?thesis
    using through_json_safe[of ps] map_through_json_keeps[of ps] by auto
qed

theorem deleteProduct_absent_id_unchanged_witness:
  "\<not> loose_eq (\<lambda>s. if s = ''7'' then Fin 7 else NaN)
       (get_prop (object_of [(''id'', Num (Fin 1)), (''code'', Str ''A1'')]) ''id'') (Str ''7'')
   \<and> deleteProduct (\<lambda>s. if s = ''7'' then Fin 7 else NaN)
       (Stored [object_of [(''id'', Num (Fin 1)), (''code'', Str ''A1'')]]) (Str ''7'')
     = (Inr (Array [object_of [(''id'', Num (Fin 1)), (''code'', Str ''A1'')]]),
        Stored [object_of [(''id'', Num (Fin 1)), (''code'', Str ''A1'')]])"
  using deleteProduct_absent_id_unchanged
    [of "[object_of [(''id'', Num (Fin 1)), (''code'', Str ''A1'')]]"
        "\<lambda>s. if s = ''7'' then Fin 7 else NaN" "Str ''7''"]
  by (simp add: get_prop_def object_of_def set_prop_def json_keeps_def through_json_def fun_eq_iff)

text \<open>
  Two stores on which the claim fails as it is written. A price written \<^verbatim>\<open>1e400\<close> is read
  as Infinity, and a delete that matches nothing rewrites it as \<^verbatim>\<open>null\<close>. And the
  identifier \<^verbatim>\<open>"1"\<close> is the id of no product by the \<^verbatim>\<open>===\<close> of getProductById, yet
  deleteProduct, which compares with \<^verbatim>\<open>!=\<close>, removes the product whose id is 1.
\<close>

theorem deleteProduct_rewrites_counterexample:
  "deleteProduct (\<lambda>s. NaN)
       (Stored [JSON_parse_object Fin [(''id'', LNum 1), (''price'', LNum (10 ^ 400))]]) (Num (Fin 7))
     = (Inr (Array [object_of [(''id'', Num (Fin 1)), (''price'', Num PosInf)]]),
        Stored [object_of [(''id'', Num (Fin 1)), (''price'', Null)]])
   \<and> \<not> strict_eq (get_prop (object_of [(''id'', Num (Fin 1)), (''price'', Null)]) ''price'')
                  (get_prop (object_of [(''id'', Num (Fin 1)), (''price'', Num PosInf)]) ''price'')
   \<and> getProductById (Stored [object_of [(''id'', Num (Fin 1))]]) (Str ''1'') = Inr (Prim Undefined)
   \<and> deleteProduct (\<lambda>s. if s = ''1'' then Fin 1 else NaN)
       (Stored [object_of [(''id'', Num (Fin 1))]]) (Str ''1'')
     = (Inr (Array []), Stored [])"
  by (simp add: deleteProduct_def getProductById_def writeFile_def through_json_def
      JSON_parse_object_def read_number_def object_of_def set_prop_def get_prop_def fun_eq_iff)

text \<open>A price written \<^verbatim>\<open>-0\<close> is rewritten as \<^verbatim>\<open>0\<close>, which \<^verbatim>\<open>===\<close> does not tell from it.\<close>

lemma deleteProduct_rewrites_negative_zero:
  "deleteProduct tn
       (Stored [JSON_parse_object rd [(''id'', LNum 1), (''price'', LMinusZero)]]) (Num (Fin 7))
     = (Inr (Array [object_of [(''id'', Num (Fin 1)), (''price'', Num NegZero)]]),
        Stored [object_of [(''id'', Num (Fin 1)), (''price'', Num (Fin 0))]])
   \<and> strict_eq (Num (Fin 0)) (Num NegZero)"
  by (simp add: deleteProduct_def writeFile_def through_json_def
      JSON_parse_object_def read_number_def object_of_def set_prop_def get_prop_def fun_eq_iff)

section \<open>Creating a product whose code is already stored\<close>

lemma truthy_strict_eq_refl: "truthy v \<Longrightarrow> strict_eq v v"
proof (cases v)
  case (Num n)
  assume "truthy v"
  with Num show ?thesis by (cases n) simp_all
qed simp_all

lemma addProduct_rejects_falsy:
  "list_ex (\<lambda>k. \<not> truthy (get_prop newProduct k)) required_fields \<Longrightarrow>
   addProduct tn rd f newProduct = (Prim Undefined, f)"
  by (simp add: addProduct_def)

text \<open>
  C3. When some stored product has the code of the new product, addProduct returns
  \<^verbatim>\<open>undefined\<close> and the file holds exactly the collection it held before. (A payload whose
  code is missing or falsy is refused by the required-fields check before the codes are
  compared.)
\<close>

theorem addProduct_duplicate_code_rejected:
  assumes "p \<in> set ps"
    and "get_prop p ''code'' = get_prop newProduct ''code''"
  shows "addProduct tn rd (Stored ps) newProduct = (Prim Undefined, Stored ps)"
proof (cases "list_ex (\<lambda>k. \<not> truthy (get_prop newProduct k)) required_fields")
  case True
  then show ?thesis by (rule addProduct_rejects_falsy)
next
  case False
  then have "truthy (get_prop newProduct ''code'')"
    by (simp add: required_fields_def)
  then have "strict_eq (get_prop p ''code'') (get_prop newProduct ''code'')"
    using assms(2) by (simp add: truthy_strict_eq_refl)
  then have "list_ex (\<lambda>product. strict_eq (get_prop product ''code'') (get_prop newProduct ''code'')) ps"
    using assms(1) by (auto simp: list_ex_iff)
  then show ?thesis
    by (simp add: addProduct_def)
qed

theorem addProduct_duplicate_code_rejected_witness:
  "addProduct (\<lambda>s. NaN) Fin
     (Stored [object_of [(''id'', Num (Fin 1)), (''title'', Str ''pen''), (''code'', Str ''A1'')]])
     (object_of [(''title'', Str ''ink''), (''description'', Str ''blue''), (''price'', Num (Fin 3)),
                 (''thumbnail'', Str ''ink.png''), (''code'', Str ''A1''), (''stock'', Num (Fin 9))])
   = (Prim Undefined,
      Stored [object_of [(''id'', Num (Fin 1)), (''title'', Str ''pen''), (''code'', Str ''A1'')]])"
  using addProduct_duplicate_code_rejected
    [of "object_of [(''id'', Num (Fin 1)), (''title'', Str ''pen''), (''code'', Str ''A1'')]"
        "[object_of [(''id'', Num (Fin 1)), (''title'', Str ''pen''), (''code'', Str ''A1'')]]"
        "object_of [(''title'', Str ''ink''), (''description'', Str ''blue''), (''price'', Num (Fin 3)),
                    (''thumbnail'', Str ''ink.png''), (''code'', Str ''A1''), (''stock'', Num (Fin 9))]"
        "\<lambda>s. NaN" Fin]
  by (simp add: get_prop_def object_of_def set_prop_def)

text \<open>
  A store whose text repeats the key \<^verbatim>\<open>code\<close>: the product is read with the last value,
  \<^verbatim>\<open>'B2'\<close>, so a new product with the code \<^verbatim>\<open>'A1'\<close> is not a duplicate and is appended.
\<close>

lemma repeated_key_is_read_last:
  "snd (addProduct tn rd
          (Stored [JSON_parse_object rd
                     [(''id'', LNum 1), (''code'', LStr ''A1''), (''code'', LStr ''B2'')]])
          (object_of [(''title'', Str ''ink''), (''description'', Str ''blue''),
                      (''price'', Num (Fin 3)), (''thumbnail'', Str ''ink.png''),
                      (''code'', Str ''A1''), (''stock'', Num (Fin 9))]))
   = Stored [object_of [(''id'', Num (Fin 1)), (''code'', Str ''B2'')],
             object_of [(''id'', Num (Fin 2)), (''title'', Str ''ink''), (''description'', Str ''blue''),
                        (''price'', Num (Fin 3)), (''thumbnail'', Str ''ink.png''),
                        (''code'', Str ''A1''), (''stock'', Num (Fin 9))]]"
  by (simp add: addProduct_def getNewID_def new_product_def required_fields_def get_prop_def
      writeFile_def through_json_def JSON_parse_object_def read_number_def object_of_def
      set_prop_def js_plus_one_def Let_def fun_eq_iff)

section \<open>The identifier of a new product\<close>

lemma getNewID_Stored:
  "getNewID rd (Stored ps) =
     (if ps = [] then Num (Fin 1) else add_one rd (get_prop (last ps) ''id''))"
  by (simp add: getNewID_def)

lemma addProduct_accepts:
  assumes "list_all (\<lambda>k. truthy (get_prop newProduct k)) required_fields"
    and "list_all (\<lambda>p. \<not> strict_eq (get_prop p ''code'') (get_prop newProduct ''code'')) ps"
  shows "addProduct tn rd (Stored ps) newProduct
         = (element_before tn (ps @ [new_product (getNewID rd (Stored ps)) newProduct])
              (getNewID rd (Stored ps)),
            Stored (map through_json ps
                    @ [through_json (new_product (getNewID rd (Stored ps)) newProduct)]))"
proof -
  have a: "\<not> list_ex (\<lambda>k. \<not> truthy (get_prop newProduct k)) required_fields"
    using assms(1) by (simp add: list_all_iff list_ex_iff)
  have b: "\<not> list_ex (\<lambda>product. strict_eq (get_prop product ''code'') (get_prop newProduct ''code'')) ps"
    using assms(2) by (simp add: list_all_iff list_ex_iff)
  show ?thesis
    using a b by (simp add: addProduct_def Let_def writeFile_def)
qed

lemma js_plus_one_safe: "- (2 ^ 53) \<le> n \<Longrightarrow> n < 2 ^ 53 \<Longrightarrow> js_plus_one n = n + 1"
  by (simp add: js_plus_one_def)

lemma get_prop_new_product:
  "get_prop (new_product ident newProduct) k =
     (if k \<in> set required_fields then get_prop newProduct k
      else if k = ''id'' then ident else Undefined)"
  by (simp add: new_product_def required_fields_def object_of_def set_prop_def get_prop_def)

text \<open>
  C1, as the code has it. On a readable store, a payload that passes the checks is
  appended with the identifier 1 when the collection is empty, and otherwise with the
  identifier of the last stored product plus one, that identifier being an integer in
  the range where \<^verbatim>\<open>+ 1\<close> is exact. The appended record has this identifier and the six
  fields of the payload, and the file holds it after the stored records, all as JSON
  writes them.
\<close>

theorem addProduct_next_id_after_last:
  assumes "list_all (\<lambda>k. truthy (get_prop newProduct k)) required_fields"
    and "list_all (\<lambda>p. \<not> strict_eq (get_prop p ''code'') (get_prop newProduct ''code'')) ps"
  shows "(ps = [] \<longrightarrow>
            snd (addProduct tn rd (Stored ps) newProduct)
            = Stored [through_json (new_product (Num (Fin 1)) newProduct)])
       \<and> (\<forall>n. ps \<noteq> [] \<and> get_prop (last ps) ''id'' = Num (Fin (of_int n))
                \<and> - (2 ^ 53) \<le> n \<and> n < 2 ^ 53 \<longrightarrow>
            snd (addProduct tn rd (Stored ps) newProduct)
            = Stored (map through_json ps
                      @ [through_json (new_product (Num (Fin (of_int (n + 1)))) newProduct)]))
       \<and> (\<forall>q. get_prop (through_json (new_product (Num (Fin q)) newProduct)) ''id'' = Num (Fin q))"
proof (intro conjI impI allI)
  assume "ps = []"
  then show "snd (addProduct tn rd (Stored ps) newProduct)
             = Stored [through_json (new_product (Num (Fin 1)) newProduct)]"
    using addProduct_accepts[OF assms, of tn rd] by (simp add: getNewID_Stored)
next
  fix n
  assume h: "ps \<noteq> [] \<and> get_prop (last ps) ''id'' = Num (Fin (of_int n))
                \<and> - (2 ^ 53) \<le> n \<and> n < 2 ^ 53"
  then have "getNewID rd (Stored ps) = Num (Fin (of_int (n + 1)))"
    by (simp add: getNewID_Stored js_plus_one_safe)
  then show "snd (addProduct tn rd (Stored ps) newProduct)
             = Stored (map through_json ps
                       @ [through_json (new_product (Num (Fin (of_int (n + 1)))) newProduct)])"
    using addProduct_accepts[OF assms, of tn rd] by simp
next
  fix q
  show "get_prop (through_json (new_product (Num (Fin q)) newProduct)) ''id'' = Num (Fin q)"
    by (simp add: through_json_apply get_prop_new_product required_fields_def)
qed

theorem addProduct_next_id_after_last_witness:
  "snd (addProduct (\<lambda>s. NaN) Fin (Stored [])
          (object_of [(''title'', Str ''ink''), (''description'', Str ''blue''),
                      (''price'', Num (Fin 3)), (''thumbnail'', Str ''ink.png''),
                      (''code'', Str ''B2''), (''stock'', Num (Fin 9))]))
   = Stored [object_of [(''id'', Num (Fin 1)), (''title'', Str ''ink''), (''description'', Str ''blue''),
                        (''price'', Num (Fin 3)), (''thumbnail'', Str ''ink.png''),
                        (''code'', Str ''B2''), (''stock'', Num (Fin 9))]]
   \<and> snd (addProduct (\<lambda>s. NaN) Fin
          (Stored [object_of [(''id'', Num (Fin 1)), (''code'', Str ''A1'')],
                   object_of [(''id'', Num (Fin 4)), (''code'', Str ''A4'')]])
          (object_of [(''title'', Str ''ink''), (''description'', Str ''blue''),
                      (''price'', Num (Fin 3)), (''thumbnail'', Str ''ink.png''),
                      (''code'', Str ''B2''), (''stock'', Num (Fin 9))]))
   = Stored [object_of [(''id'', Num (Fin 1)), (''code'', Str ''A1'')],
             object_of [(''id'', Num (Fin 4)), (''code'', Str ''A4'')],
             object_of [(''id'', Num (Fin 5)), (''title'', Str ''ink''), (''description'', Str ''blue''),
                        (''price'', Num (Fin 3)), (''thumbnail'', Str ''ink.png''),
                        (''code'', Str ''B2''), (''stock'', Num (Fin 9))]]"
  using addProduct_next_id_after_last
    [of "object_of [(''title'', Str ''ink''), (''description'', Str ''blue''),
                    (''price'', Num (Fin 3)), (''thumbnail'', Str ''ink.png''),
                    (''code'', Str ''B2''), (''stock'', Num (Fin 9))]"
        "[]" "\<lambda>s. NaN" Fin]
    addProduct_next_id_after_last
    [of "object_of [(''title'', Str ''ink''), (''description'', Str ''blue''),
                    (''price'', Num (Fin 3)), (''thumbnail'', Str ''ink.png''),
                    (''code'', Str ''B2''), (''stock'', Num (Fin 9))]"
        "[object_of [(''id'', Num (Fin 1)), (''code'', Str ''A1'')],
          object_of [(''id'', Num (Fin 4)), (''code'', Str ''A4'')]]"
        "\<lambda>s. NaN" Fin]
  by (simp add: addProduct_def getNewID_def new_product_def required_fields_def get_prop_def
      writeFile_def through_json_def object_of_def set_prop_def js_plus_one_def Let_def fun_eq_iff)

text \<open>
  With the identifiers 5 and 2 stored in this order the new product gets 3, not 6. With
  the identifier \<open>2^53\<close> stored last the new product gets \<open>2^53\<close> again.
\<close>

theorem addProduct_id_not_max_counterexample:
  "snd (addProduct (\<lambda>s. NaN) Fin
          (Stored [object_of [(''id'', Num (Fin 5)), (''code'', Str ''A5'')],
                   object_of [(''id'', Num (Fin 2)), (''code'', Str ''A2'')]])
          (object_of [(''title'', Str ''ink''), (''description'', Str ''blue''),
                      (''price'', Num (Fin 3)), (''thumbnail'', Str ''ink.png''),
                      (''code'', Str ''B2''), (''stock'', Num (Fin 9))]))
   = Stored [object_of [(''id'', Num (Fin 5)), (''code'', Str ''A5'')],
             object_of [(''id'', Num (Fin 2)), (''code'', Str ''A2'')],
             object_of [(''id'', Num (Fin 3)), (''title'', Str ''ink''), (''description'', Str ''blue''),
                        (''price'', Num (Fin 3)), (''thumbnail'', Str ''ink.png''),
                        (''code'', Str ''B2''), (''stock'', Num (Fin 9))]]
   \<and> (3::rat) \<noteq> Max {5, 2} + 1
   \<and> getNewID Fin (Stored [object_of [(''id'', Num (Fin 9007199254740992)), (''code'', Str ''A1'')]])
     = Num (Fin 9007199254740992)"
  by (simp add: addProduct_def getNewID_def new_product_def required_fields_def get_prop_def
      writeFile_def through_json_def object_of_def set_prop_def js_plus_one_def Let_def fun_eq_iff)

text \<open>
  When the stored identifiers are integers in ascending order the last one is the
  greatest, the new identifier is the maximum plus one, and the order stays ascending.
\<close>

lemma Max_of_ascending: "sorted_wrt (<) ns \<Longrightarrow> ns \<noteq> [] \<Longrightarrow> Max (set ns) = last (ns :: int list)"
proof (induction ns)
  case Nil
  then show ?case by simp
next
  case (Cons n ns)
  show ?case
  proof (cases "ns = []")
    case True
    then show ?thesis by simp
  next
    case False
    with Cons have ih: "Max (set ns) = last ns" by simp
    from False have "last ns \<in> set ns" by simp
    with Cons.prems(1) have "n < last ns" by auto
    with False ih show ?thesis by (simp add: max_def)
  qed
qed

lemma addProduct_next_id_after_max:
  assumes "list_all (\<lambda>k. truthy (get_prop newProduct k)) required_fields"
    and "list_all (\<lambda>p. \<not> strict_eq (get_prop p ''code'') (get_prop newProduct ''code'')) ps"
    and ids: "map (\<lambda>p. get_prop p ''id'') ps = map (\<lambda>n. Num (Fin (of_int n))) ns"
    and asc: "sorted_wrt (<) ns"
    and ne: "ps \<noteq> []"
    and bound: "\<forall>n \<in> set ns. - (2 ^ 53) \<le> n \<and> n < 2 ^ 53"
  shows "snd (addProduct tn rd (Stored ps) newProduct)
         = Stored (map through_json ps
                   @ [through_json (new_product (Num (Fin (of_int (Max (set ns) + 1)))) newProduct)])
         \<and> sorted_wrt (<) (ns @ [Max (set ns) + 1])"
proof -
  from ids have len: "length ns = length ps"
    by (metis length_map)
  with ne have nne: "ns \<noteq> []" by auto
  have "last (map (\<lambda>p. get_prop p ''id'') ps) = last (map (\<lambda>n. Num (Fin (of_int n))) ns)"
    using ids by simp
  then have lastid: "get_prop (last ps) ''id'' = Num (Fin (of_int (last ns)))"
    using ne nne by (simp add: last_map)
  have mx: "Max (set ns) = last ns"
    using asc nne by (rule Max_of_ascending)
  have "last ns \<in> set ns" using nne by simp
  with bound have "- (2 ^ 53) \<le> last ns" "last ns < 2 ^ 53" by auto
  then have newid: "getNewID rd (Stored ps) = Num (Fin (of_int (Max (set ns) + 1)))"
    using ne lastid mx by (simp add: getNewID_Stored js_plus_one_safe)
  have sorted': "sorted_wrt (<) (ns @ [Max (set ns) + 1])"
  proof -
    have "\<forall>n \<in> set ns. n \<le> Max (set ns)" by simp
    then have "\<forall>n \<in> set ns. n < Max (set ns) + 1" by auto
    with asc show ?thesis by (simp add: sorted_wrt_append)
  qed
  show ?thesis
    using addProduct_accepts[OF assms(1,2), of tn rd] newid sorted' by simp
qed

section \<open>The required fields of a new product\<close>

text \<open>
  The check is \<^verbatim>\<open>!field\<close> on each of the six fields. A payload in which some required
  field is missing or empty is falsy on that field and is refused with the store
  untouched, whatever the store holds.
\<close>

lemma addProduct_missing_or_empty_rejected:
  assumes "k \<in> set required_fields"
    and "get_prop newProduct k = Undefined \<or> get_prop newProduct k = Str []"
  shows "addProduct tn rd f newProduct = (Prim Undefined, f)"
proof -
  from assms(2) have "\<not> truthy (get_prop newProduct k)" by auto
  with assms(1) have "list_ex (\<lambda>k. \<not> truthy (get_prop newProduct k)) required_fields"
    by (auto simp: list_ex_iff)
  then show ?thesis by (rule addProduct_rejects_falsy)
qed

text \<open>
  C6 does not hold for a required field that is present with the value 0. Every field of
  this payload is present and none is empty; addProduct refuses it for its stock of 0, on
  an empty store, and writes nothing.
\<close>

theorem addProduct_zero_stock_rejected:
  "addProduct (\<lambda>s. NaN) Fin (Stored [])
     (object_of [(''title'', Str ''ink''), (''description'', Str ''blue''), (''price'', Num (Fin 3)),
                 (''thumbnail'', Str ''ink.png''), (''code'', Str ''B2''), (''stock'', Num (Fin 0))])
   = (Prim Undefined, Stored [])"
  by (simp add: addProduct_def required_fields_def get_prop_def object_of_def set_prop_def)

section \<open>Writing the collection and reading it back\<close>




section \<open>What updateProduct changes\<close>

lemma get_prop_merge_fields:
  "get_prop (merge_fields product payload) k =
     (if k \<in> set required_fields then get_prop payload k else get_prop product k)"
  by (simp add: merge_fields_def required_fields_def set_prop_def get_prop_def)

lemma updateProduct_Stored:
  "updateProduct (Stored ps) productID payload =
     (Array (map (\<lambda>product. if strict_eq (get_prop product ''id'') productID
                              then merge_fields product payload else product) ps),
      Stored (map (\<lambda>product. through_json
                          (if strict_eq (get_prop product ''id'') productID
                           then merge_fields product payload else product)) ps))"
  by (simp add: updateProduct_def Let_def writeFile_def comp_def)

text \<open>
  C2, as the code has it. In the returned record whose id is the argument (by \<^verbatim>\<open>===\<close>),
  every field other than title, description, price, thumbnail, code and stock keeps the
  value of the stored record, and each of those six fields has the payload's value,
  which is \<^verbatim>\<open>undefined\<close> when the payload does not have the field. The file then holds
  every field of that record as JSON writes it: an \<^verbatim>\<open>undefined\<close> field is left out.
\<close>

theorem updateProduct_keeps_other_fields:
  assumes "i < length ps"
    and "strict_eq (get_prop (ps ! i) ''id'') productID"
  shows "\<exists>rs ps'. updateProduct (Stored ps) productID payload = (Array rs, Stored ps')
           \<and> length rs = length ps \<and> length ps' = length ps
           \<and> (\<forall>k. get_prop (rs ! i) k =
                     (if k \<in> set required_fields then get_prop payload k else get_prop (ps ! i) k)
                  \<and> get_prop (ps' ! i) k = json_value (get_prop (rs ! i) k))"
  using assms
  by (simp add: updateProduct_Stored get_prop_merge_fields through_json_apply)

theorem updateProduct_keeps_other_fields_witness:
  "strict_eq (get_prop (object_of [(''id'', Num (Fin 1)), (''title'', Str ''pen''),
                                   (''price'', Num (Fin 3)), (''owner'', Str ''ana'')]) ''id'')
             (Num (Fin 1))
   \<and> updateProduct
       (Stored [object_of [(''id'', Num (Fin 1)), (''title'', Str ''pen''),
                           (''price'', Num (Fin 3)), (''owner'', Str ''ana'')]])
       (Num (Fin 1))
       (object_of [(''title'', Str ''pencil''), (''description'', Str ''soft''),
                   (''price'', Num NaN), (''thumbnail'', Str ''p.png''), (''code'', Str ''A1''),
                   (''owner'', Str ''eve'')])
     = (Array [object_of [(''id'', Num (Fin 1)), (''title'', Str ''pencil''),
                          (''description'', Str ''soft''), (''price'', Num NaN),
                          (''thumbnail'', Str ''p.png''), (''code'', Str ''A1''),
                          (''owner'', Str ''ana'')]],
        Stored [object_of [(''id'', Num (Fin 1)), (''title'', Str ''pencil''),
                           (''description'', Str ''soft''), (''price'', Null),
                           (''thumbnail'', Str ''p.png''), (''code'', Str ''A1''),
                           (''owner'', Str ''ana'')]])"
  using updateProduct_keeps_other_fields
    [of 0 "[object_of [(''id'', Num (Fin 1)), (''title'', Str ''pen''),
                       (''price'', Num (Fin 3)), (''owner'', Str ''ana'')]]"
        "Num (Fin 1)"
        "object_of [(''title'', Str ''pencil''), (''description'', Str ''soft''),
                    (''price'', Num NaN), (''thumbnail'', Str ''p.png''), (''code'', Str ''A1''),
                    (''owner'', Str ''eve'')]"]
  by (simp add: updateProduct_def merge_fields_def required_fields_def get_prop_def
      writeFile_def through_json_def object_of_def set_prop_def Let_def fun_eq_iff)

text \<open>
  A payload with the price alone: the stored title is not kept, it is \<^verbatim>\<open>undefined\<close> in the
  returned record and in the record that is read from the file afterwards.
\<close>

theorem updateProduct_drops_unsupplied_counterexample:
  "get_prop (object_of [(''id'', Num (Fin 1)), (''title'', Str ''pen''), (''price'', Num (Fin 3))])
       ''title'' = Str ''pen''
   \<and> updateProduct
       (Stored [object_of [(''id'', Num (Fin 1)), (''title'', Str ''pen''), (''price'', Num (Fin 3))]])
       (Num (Fin 1)) (object_of [(''price'', Num (Fin 4))])
     = (Array [object_of [(''id'', Num (Fin 1)), (''price'', Num (Fin 4))]],
        Stored [object_of [(''id'', Num (Fin 1)), (''price'', Num (Fin 4))]])
   \<and> get_prop (object_of [(''id'', Num (Fin 1)), (''price'', Num (Fin 4))]) ''title'' = Undefined"
  by (simp add: updateProduct_def merge_fields_def required_fields_def get_prop_def
      writeFile_def through_json_def object_of_def set_prop_def Let_def fun_eq_iff)

text \<open>
  C9, as the code has it. Whatever the payload holds (an id field included), the records
  that updateProduct returns have position by position the ids that the stored records
  had, and the records in the file afterwards have those ids as JSON writes them. When no
  stored id is an infinity, every id in the file is \<^verbatim>\<open>===\<close> to what it was; when
  moreover none is the negative zero, the ids in the file are the very same.
\<close>

theorem updateProduct_keeps_ids:
  "\<exists>rs ps'. updateProduct (Stored ps) productID payload = (Array rs, Stored ps')
      \<and> map (\<lambda>r. get_prop r ''id'') rs = map (\<lambda>p. get_prop p ''id'') ps
      \<and> map (\<lambda>p. get_prop p ''id'') ps' = map (\<lambda>p. json_value (get_prop p ''id'')) ps
      \<and> ((\<forall>p \<in> set ps. json_safe (get_prop p ''id'')) \<longrightarrow>
           list_all2 strict_eq (map (\<lambda>p. get_prop p ''id'') ps') (map (\<lambda>p. get_prop p ''id'') ps))
      \<and> ((\<forall>p \<in> set ps. json_keeps (get_prop p ''id'')) \<longrightarrow>
           map (\<lambda>p. get_prop p ''id'') ps' = map (\<lambda>p. get_prop p ''id'') ps)"
proof -
  let ?upd = "\<lambda>product. if strict_eq (get_prop product ''id'') productID
                          then merge_fields product payload else product"
  have id_upd: "get_prop (?upd p) ''id'' = get_prop p ''id''" for p
    by (simp add: get_prop_merge_fields required_fields_def)
  have stored: "map (\<lambda>p. get_prop p ''id'') (map (\<lambda>p. through_json (?upd p)) ps)
                = map (\<lambda>p. json_value (get_prop p ''id'')) ps"
    by (simp add: comp_def through_json_apply id_upd)
  have returned: "map (\<lambda>r. get_prop r ''id'') (map ?upd ps) = map (\<lambda>p. get_prop p ''id'') ps"
    by (simp add: comp_def id_upd)
  have kept: "(\<forall>p \<in> set ps. json_keeps (get_prop p ''id'')) \<longrightarrow>
              map (\<lambda>p. json_value (get_prop p ''id'')) ps = map (\<lambda>p. get_prop p ''id'') ps"
    by (simp add: json_keeps_def)
  have same: "(\<forall>p \<in> set ps. json_safe (get_prop p ''id'')) \<longrightarrow>
              list_all2 strict_eq (map (\<lambda>p. json_value (get_prop p ''id'')) ps)
                                  (map (\<lambda>p. get_prop p ''id'') ps)"
    by (induction ps) (simp_all add: json_safe_strict_eq)
  show ?thesis
  proof (intro exI conjI)
    show "updateProduct (Stored ps) productID payload
          = (Array (map ?upd ps), Stored (map (\<lambda>p. through_json (?upd p)) ps))"
      by (rule updateProduct_Stored)
    show "map (\<lambda>r. get_prop r ''id'') (map ?upd ps) = map (\<lambda>p. get_prop p ''id'') ps"
      by (rule returned)
    show "map (\<lambda>p. get_prop p ''id'') (map (\<lambda>p. through_json (?upd p)) ps)
          = map (\<lambda>p. json_value (get_prop p ''id'')) ps"
      by (rule stored)
    show "(\<forall>p \<in> set ps. json_safe (get_prop p ''id'')) \<longrightarrow>
          list_all2 strict_eq (map (\<lambda>p. get_prop p ''id'') (map (\<lambda>p. through_json (?upd p)) ps))
                              (map (\<lambda>p. get_prop p ''id'') ps)"
      unfolding stored by (rule same)
    show "(\<forall>p \<in> set ps. json_keeps (get_prop p ''id'')) \<longrightarrow>
          map (\<lambda>p. get_prop p ''id'') (map (\<lambda>p. through_json (?upd p)) ps)
          = map (\<lambda>p. get_prop p ''id'') ps"
      unfolding stored by (rule kept)
  qed
qed

theorem updateProduct_keeps_ids_witness:
  "json_keeps (get_prop (object_of [(''id'', Num (Fin 1)), (''title'', Str ''pen'')]) ''id'')
   \<and> json_keeps (get_prop (object_of [(''id'', Str ''x2''), (''title'', Str ''ink'')]) ''id'')
   \<and> updateProduct
       (Stored [object_of [(''id'', Num (Fin 1)), (''title'', Str ''pen'')],
                object_of [(''id'', Str ''x2''), (''title'', Str ''ink'')]])
       (Num (Fin 1)) (object_of [(''id'', Num (Fin 99)), (''title'', Str ''pencil'')])
     = (Array [object_of [(''id'', Num (Fin 1)), (''title'', Str ''pencil'')],
               object_of [(''id'', Str ''x2''), (''title'', Str ''ink'')]],
        Stored [object_of [(''id'', Num (Fin 1)), (''title'', Str ''pencil'')],
                object_of [(''id'', Str ''x2''), (''title'', Str ''ink'')]])"
  using updateProduct_keeps_ids
    [of "[object_of [(''id'', Num (Fin 1)), (''title'', Str ''pen'')],
          object_of [(''id'', Str ''x2''), (''title'', Str ''ink'')]]"
        "Num (Fin 1)" "object_of [(''id'', Num (Fin 99)), (''title'', Str ''pencil'')]"]
  by (simp add: updateProduct_def merge_fields_def required_fields_def get_prop_def json_keeps_def
      writeFile_def through_json_def object_of_def set_prop_def Let_def fun_eq_iff)

text \<open>
  An id written \<^verbatim>\<open>1e400\<close> is read as Infinity; after an update, of whatever product, the
  file holds \<^verbatim>\<open>null\<close> for it.
\<close>

theorem updateProduct_rewrites_id_counterexample:
  "updateProduct
       (Stored [JSON_parse_object Fin [(''id'', LNum (10 ^ 400)), (''title'', LStr ''pen'')]])
       (Num (Fin 1)) (object_of [(''title'', Str ''pencil'')])
     = (Array [object_of [(''id'', Num PosInf), (''title'', Str ''pen'')]],
        Stored [object_of [(''id'', Null), (''title'', Str ''pen'')]])
   \<and> \<not> strict_eq (get_prop (object_of [(''id'', Null), (''title'', Str ''pen'')]) ''id'')
                  (get_prop (object_of [(''id'', Num PosInf), (''title'', Str ''pen'')]) ''id'')"
  by (simp add: updateProduct_def merge_fields_def required_fields_def get_prop_def
      writeFile_def through_json_def JSON_parse_object_def read_number_def object_of_def
      set_prop_def Let_def fun_eq_iff)

section \<open>A store that cannot be read\<close>

text \<open>
  C5 does not hold for two methods of ProductManager. When the file cannot be read or
  parsed, deleteProduct lets the TypeError of \<^verbatim>\<open>productList.filter\<close> reach the caller, and
  getProductById lets the ReferenceError of its own handler reach the caller.
\<close>

theorem unreadable_store_throws:
  "deleteProduct tn Unreadable productID = (Inl TypeError, Unreadable)
   \<and> deleteProduct tn Malformed productID = (Inl TypeError, Malformed)
   \<and> getProductById Unreadable productID = Inl ReferenceError
   \<and> getProductById Malformed productID = Inl ReferenceError"
  by (simp add: deleteProduct_def getProductById_def)

section \<open>Line items of a cart\<close>

text \<open>
  A populated line item converts to \<^verbatim>\<open>"[object Object]"\<close> or \<^verbatim>\<open>"null"\<close>, so the test of
  addProductToCart and updateQuantityOfProduct fails for every other product identifier:
  the first always pushes a new line item, the second always returns \<^verbatim>\<open>null\<close>.
\<close>

lemma populate_String:
  "js_String (product_ref (populate docs it)) = ''[object Object]''
   \<or> js_String (product_ref (populate docs it)) = ''null''"
  by (simp add: populate_def split: option.split)

lemma populated_never_in_cart:
  assumes "getCartById db cartId = Some c"
    and "productId \<noteq> ''[object Object]''" and "productId \<noteq> ''null''"
  shows "find (\<lambda>item. js_String (product_ref item) = productId) (products c) = None"
proof -
  from assms(1) obtain its where c: "products c = map (populate (catalog db)) its"
    by (auto simp: getCartById_def split: option.splits)
  have "js_String (product_ref item) \<noteq> productId" if "item \<in> set (products c)" for item
  proof -
    from that obtain it where "item = populate (catalog db) it"
      unfolding c by auto
    then show ?thesis
      using populate_String[of "catalog db" it] assms(2,3) by auto
  qed
  then show ?thesis
    by (simp add: find_None_iff)
qed

lemma addProductToCart_always_pushes:
  assumes "getCartById db cartId = Some c"
    and "getProductById_mongo db productId = Some p"
    and "productId \<noteq> ''[object Object]''" and "productId \<noteq> ''null''"
  shows "addProductToCart db cartId productId =
           findOneAndUpdate db cartId
             (map keep (products c) @ [\<lparr>product_ref = IdRef (doc_id p), quantity = None\<rparr>])"
  using assms(1,2) populated_never_in_cart[OF assms(1,3,4)]
  by (simp add: addProductToCart_def)

lemma updateQuantityOfProduct_never_finds:
  assumes "getCartById db cartId = Some c"
    and "getProductById_mongo db productId = Some p"
    and "productId \<noteq> ''[object Object]''" and "productId \<noteq> ''null''"
  shows "updateQuantityOfProduct db cartId productId newQuantity = (ReturnedNull, db)"
  using assms(1,2) populated_never_in_cart[OF assms(1,3,4)]
  by (simp add: updateQuantityOfProduct_def)

lemma updateQuantityOfProduct_NotANumber_no_update:
  "snd (updateQuantityOfProduct db cartId productId NotANumber) = db"
  by (simp add: updateQuantityOfProduct_def Let_def split: option.split)

text \<open>
  C4 does not hold. A cart holds one line item for a product, at quantity 1, and the same
  product is added: the stored cart then has two line items for it, both at quantity 1.
\<close>

theorem addProductToCart_duplicates_line_item:
  "addProductToCart
     \<lparr>carts = [\<lparr>cart_id = ''65b2a0c2e4b0a1b2c3d4e5a1'',
                products = [\<lparr>product_ref = Some ''65a1f0c2e4b0a1b2c3d4e5f6'', quantity = 1\<rparr>]\<rparr>],
      catalog = [\<lparr>doc_id = ''65a1f0c2e4b0a1b2c3d4e5f6'', doc_fields = [(''title'', Str ''pen'')]\<rparr>]\<rparr>
     ''65b2a0c2e4b0a1b2c3d4e5a1'' ''65a1f0c2e4b0a1b2c3d4e5f6''
   = (Returned \<lparr>cart_id = ''65b2a0c2e4b0a1b2c3d4e5a1'',
                products = [\<lparr>product_ref = Some ''65a1f0c2e4b0a1b2c3d4e5f6'', quantity = 1\<rparr>,
                            \<lparr>product_ref = Some ''65a1f0c2e4b0a1b2c3d4e5f6'', quantity = 1\<rparr>]\<rparr>,
      \<lparr>carts = [\<lparr>cart_id = ''65b2a0c2e4b0a1b2c3d4e5a1'',
                products = [\<lparr>product_ref = Some ''65a1f0c2e4b0a1b2c3d4e5f6'', quantity = 1\<rparr>,
                            \<lparr>product_ref = Some ''65a1f0c2e4b0a1b2c3d4e5f6'', quantity = 1\<rparr>]\<rparr>],
      catalog = [\<lparr>doc_id = ''65a1f0c2e4b0a1b2c3d4e5f6'', doc_fields = [(''title'', Str ''pen'')]\<rparr>]\<rparr>)"
  by (simp add: addProductToCart_def getCartById_def getProductById_mongo_def populate_def
      findOneAndUpdate_def cast_item_def keep_def default_quantity_def)

text \<open>
  C10 does not hold as to the returned value. A cart holds a line item for the product and
  the quantity is not a number: the cart is left as it was, and the method returns
  \<^verbatim>\<open>null\<close> (the line item is not found), not \<^verbatim>\<open>undefined\<close>.
\<close>

theorem updateQuantityOfProduct_returns_null:
  "updateQuantityOfProduct
     \<lparr>carts = [\<lparr>cart_id = ''65b2a0c2e4b0a1b2c3d4e5a1'',
                products = [\<lparr>product_ref = Some ''65a1f0c2e4b0a1b2c3d4e5f6'', quantity = 2\<rparr>]\<rparr>],
      catalog = [\<lparr>doc_id = ''65a1f0c2e4b0a1b2c3d4e5f6'', doc_fields = [(''title'', Str ''pen'')]\<rparr>]\<rparr>
     ''65b2a0c2e4b0a1b2c3d4e5a1'' ''65a1f0c2e4b0a1b2c3d4e5f6'' NotANumber
   = (ReturnedNull,
      \<lparr>carts = [\<lparr>cart_id = ''65b2a0c2e4b0a1b2c3d4e5a1'',
                products = [\<lparr>product_ref = Some ''65a1f0c2e4b0a1b2c3d4e5f6'', quantity = 2\<rparr>]\<rparr>],
      catalog = [\<lparr>doc_id = ''65a1f0c2e4b0a1b2c3d4e5f6'', doc_fields = [(''title'', Str ''pen'')]\<rparr>]\<rparr>)"
  by (simp add: updateQuantityOfProduct_def getCartById_def getProductById_mongo_def populate_def)

end
